theory Spec2Isabelle
  imports Main "HOL-Library.Word"
begin

section \<open>EIP-3009 authorization examples: the execution helpers\<close>

text \<open>
  The example scripts of the repository build an EIP-3009 authorization off chain, sign it,
  and hand it to a helper that runs a few pre-flight checks before calling the token
  contract. This theory embeds those helpers as HOL functions. Everything a helper
  obtains from outside (the wall clock, the latest block, the signer's address, the
  contract's views and the contract call itself) is a field of a record that the model
  receives as an argument, and every external call the helper makes is written to a log,
  in the order of the source.
\<close>

subsection \<open>Data\<close>

text \<open>
  The object that the helpers destructure:
  \<^verbatim>\<open>const { from, to, value, validAfter, validBefore, nonce, signature } = authorization;\<close>
  Addresses, the nonce and the signature are the strings the scripts pass around; the
  three numbers are JavaScript numbers or BigInts, which compare as integers.
\<close>

record authorization =
  from_address :: string
  to_address :: string
  value_units :: int
  validAfter :: int
  validBefore :: int
  nonce :: string
  signature :: string

text \<open>
  Every \<^verbatim>\<open>throw new Error(...)\<close> of the helpers is a constructor, named after its
  message. \<open>ContractError\<close> is a failure that comes back from the node or the contract
  (gas estimation, the call, waiting for the receipt), with its message.
\<close>

datatype error =
    ToMismatch string string
  | NotYetValid
  | Expired
  | AlreadyUsed
  | TransferNotYetValid int int
  | TransferExpired int int
  | InsufficientBalance int int
  | ContractError string

text \<open>The external calls a helper can make, as they appear in its log.\<close>

datatype call =
    GetAddress
  | GetBlock
  | AuthorizationStateCall string string
  | BalanceOfCall string
  | EstimateGasCall authorization
  | DomainSeparatorCall
  | TransferWithAuthorizationCall authorization "int option"
  | ReceiveWithAuthorizationCall authorization

text \<open>
  What lies outside the helper. \<open>dateNow\<close> is \<^verbatim>\<open>Math.floor(Date.now() / 1000)\<close>,
  \<open>blockTimestamp\<close> is \<^verbatim>\<open>(await provider.getBlock("latest")).timestamp\<close>,
  \<open>signerAddress\<close> is \<^verbatim>\<open>await signer.getAddress()\<close>; the other fields are
  the contract's views and the two state-changing calls, each followed by
  \<^verbatim>\<open>tx.wait()\<close>, which yield a receipt or fail with a message.
\<close>

record 'r world =
  dateNow :: int
  blockTimestamp :: int
  signerAddress :: string
  authorizationState :: "string \<Rightarrow> string \<Rightarrow> bool"
  balanceOf :: "string \<Rightarrow> int"
  estimateGas :: "authorization \<Rightarrow> string + int"
  sendTransfer :: "authorization \<Rightarrow> int option \<Rightarrow> string + 'r"
  sendReceive :: "authorization \<Rightarrow> string + 'r"

definition fromContract :: "string + 'a \<Rightarrow> error + 'a" where
  "fromContract r = (case r of Inl msg \<Rightarrow> Inl (ContractError msg) | Inr x \<Rightarrow> Inr x)"

subsection \<open>Strings\<close>

text \<open>
  \<^verbatim>\<open>String.prototype.toLowerCase\<close> on the characters a \<open>char\<close> can hold: the
  ASCII capitals and the Latin-1 capitals move up by 32, everything else stays.
\<close>

definition lowerChar :: "char \<Rightarrow> char" where
  "lowerChar c =
     (let n = (of_char c :: nat) in
      if (65 \<le> n \<and> n \<le> 90) \<or> (192 \<le> n \<and> n \<le> 222 \<and> n \<noteq> 215)
      then char_of (n + 32) else c)"

definition toLowerCase :: "string \<Rightarrow> string" where
  "toLowerCase s = map lowerChar s"

fun startsWith :: "string \<Rightarrow> string \<Rightarrow> bool" where
  "startsWith s [] = True"
| "startsWith [] (p # ps) = False"
| "startsWith (c # cs) (p # ps) = (c = p \<and> startsWith cs ps)"

text \<open>\<^verbatim>\<open>s.includes(needle)\<close>: the needle starts at some position of \<open>s\<close>.\<close>

fun includes_str :: "string \<Rightarrow> string \<Rightarrow> bool" where
  "includes_str [] needle = (needle = [])"
| "includes_str (c # cs) needle = (startsWith (c # cs) needle \<or> includes_str cs needle)"

subsection \<open>The helpers\<close>

text \<open>
  \<^verbatim>\<open>FiatTokenSender.transferWithAuthorization\<close> (run-transfer-example.js; the same
  body stands in the other transfer examples):
  \<^verbatim>\<open>
    const currentTime = Math.floor(Date.now() / 1000);
    if (currentTime < validAfter) { throw new Error("Authorization is not yet valid"); }
    if (currentTime > validBefore) { throw new Error("Authorization has expired"); }
    const isUsed = await this.contract.authorizationState(from, nonce);
    if (isUsed) { throw new Error("Authorization has already been used"); }
    const tx = await this.contract.transferWithAuthorization(from, to, value,
      validAfter, validBefore, nonce, signature);
    const receipt = await tx.wait();
    return receipt;
  \<close>
  The result is the log of external calls and either the thrown error or the receipt.
\<close>

definition transferWithAuthorization ::
  "'r world \<Rightarrow> authorization \<Rightarrow> call list \<times> (error + 'r)" where
  "transferWithAuthorization w a =
     (let currentTime = dateNow w in
      if currentTime < validAfter a then ([], Inl NotYetValid)
      else if currentTime > validBefore a then ([], Inl Expired)
      else
        let log1 = [AuthorizationStateCall (from_address a) (nonce a)];
            isUsed = authorizationState w (from_address a) (nonce a)
        in if isUsed then (log1, Inl AlreadyUsed)
           else (log1 @ [TransferWithAuthorizationCall a None],
                 fromContract (sendTransfer w a None)))"

text \<open>
  \<^verbatim>\<open>FiatTokenReceiver.receiveWithAuthorization\<close> (run-receive-example.js and the
  original ReceiveWithAuthorization example): the same checks, after
  \<^verbatim>\<open>
    const receiverAddress = await this.receiverSigner.getAddress();
    if (to.toLowerCase() !== receiverAddress.toLowerCase()) {
      throw new Error(`Authorization 'to' address ${to} does not match receiver ${receiverAddress}`);
    }
  \<close>
\<close>

definition receiveWithAuthorization ::
  "'r world \<Rightarrow> authorization \<Rightarrow> call list \<times> (error + 'r)" where
  "receiveWithAuthorization w a =
     (let receiverAddress = signerAddress w; log0 = [GetAddress] in
      if toLowerCase (to_address a) \<noteq> toLowerCase receiverAddress
      then (log0, Inl (ToMismatch (to_address a) receiverAddress))
      else
        let currentTime = dateNow w in
        if currentTime < validAfter a then (log0, Inl NotYetValid)
        else if currentTime > validBefore a then (log0, Inl Expired)
        else
          let log1 = log0 @ [AuthorizationStateCall (from_address a) (nonce a)];
              isUsed = authorizationState w (from_address a) (nonce a)
          in if isUsed then (log1, Inl AlreadyUsed)
             else (log1 @ [ReceiveWithAuthorizationCall a],
                   fromContract (sendReceive w a)))"

text \<open>
  \<^verbatim>\<open>WorkingFiatTokenSender.executeTransferWithAuth\<close> (the working transfer example
  with the fixed timing): the clock is the latest block's timestamp, the lower bound has
  a buffer of 60 seconds, the holder's balance is checked, and gas is estimated before the
  call.
  \<^verbatim>\<open>
    console.log(`   Executor: ${await this.executorSigner.getAddress()}`);
    const currentBlockTime = await this.getCurrentBlockTimestamp();
    if (currentBlockTime < validAfter - 60) { throw new Error(`Transfer not yet valid. ...`); }
    if (currentBlockTime > validBefore) { throw new Error(`Transfer expired. ...`); }
    const isUsed = await this.contract.authorizationState(from, nonce);
    if (isUsed) { throw new Error("Authorization has already been used"); }
    const balance = await this.contract.balanceOf(from);
    if (balance < value) { throw new Error(`Insufficient balance. ...`); }
    try {
      const gasEstimate = await this.contract.transferWithAuthorization.estimateGas(...);
      const tx = await this.contract.transferWithAuthorization(..., signature,
        { gasLimit: (gasEstimate * 120n) / 100n });
      const receipt = await tx.wait();
      return receipt;
    } catch (error) {
      if (error.message.includes("invalid signature")) {
        ... await this.contract.DOMAIN_SEPARATOR() ...
      }
      throw error;
    }
  \<close>
\<close>

definition rethrow :: "call list \<Rightarrow> string \<Rightarrow> call list \<times> (error + 'r)" where
  "rethrow log msg =
     ((if includes_str msg ''invalid signature'' then log @ [DomainSeparatorCall] else log),
      Inl (ContractError msg))"

definition executeTransferWithAuth ::
  "'r world \<Rightarrow> authorization \<Rightarrow> call list \<times> (error + 'r)" where
  "executeTransferWithAuth w a =
     (let log0 = [GetAddress, GetBlock]; currentBlockTime = blockTimestamp w in
      if currentBlockTime < validAfter a - 60
      then (log0, Inl (TransferNotYetValid currentBlockTime (validAfter a)))
      else if currentBlockTime > validBefore a
      then (log0, Inl (TransferExpired currentBlockTime (validBefore a)))
      else
        let log1 = log0 @ [AuthorizationStateCall (from_address a) (nonce a)];
            isUsed = authorizationState w (from_address a) (nonce a)
        in if isUsed then (log1, Inl AlreadyUsed)
           else
             let log2 = log1 @ [BalanceOfCall (from_address a)];
                 balance = balanceOf w (from_address a)
             in if balance < value_units a
                then (log2, Inl (InsufficientBalance balance (value_units a)))
                else
                  let log3 = log2 @ [EstimateGasCall a] in
                  case estimateGas w a of
                    Inl msg \<Rightarrow> rethrow log3 msg
                  | Inr gasEstimate \<Rightarrow>
                      let gasLimit = (gasEstimate * 120) div 100;
                          log4 = log3 @ [TransferWithAuthorizationCall a (Some gasLimit)]
                      in (case sendTransfer w a (Some gasLimit) of
                            Inl msg \<Rightarrow> rethrow log4 msg
                          | Inr receipt \<Rightarrow> (log4, Inr receipt)))"

text \<open>A log entry that is the submission of the authorization to the contract.\<close>

fun is_submission :: "call \<Rightarrow> bool" where
  "is_submission (TransferWithAuthorizationCall a g) = True"
| "is_submission (ReceiveWithAuthorizationCall a) = True"
| "is_submission c = False"

definition submitted :: "call list \<times> (error + 'r) \<Rightarrow> bool" where
  "submitted res = list_ex is_submission (fst res)"

definition threw :: "call list \<times> (error + 'r) \<Rightarrow> bool" where
  "threw res = isl (snd res)"

text \<open>
  The specification names the ways an authorization can stand: pending, executable,
  expired, consumed, and refused because the submitter is not the recipient. The helpers
  have no such type; they signal each state but the executable one with an error of its
  own, and the executable one by submitting. \<open>outcome\<close> reads the state off a helper's
  result; a result that is none of the five (a balance too low, a failed gas estimate) has
  no state.
\<close>

datatype classification = PENDING | EXECUTABLE | EXPIRED | CONSUMED | UNAUTHORIZED_SUBMITTER

fun outcome_of_error :: "error \<Rightarrow> classification option" where
  "outcome_of_error (ToMismatch t r) = Some UNAUTHORIZED_SUBMITTER"
| "outcome_of_error NotYetValid = Some PENDING"
| "outcome_of_error (TransferNotYetValid c v) = Some PENDING"
| "outcome_of_error Expired = Some EXPIRED"
| "outcome_of_error (TransferExpired c v) = Some EXPIRED"
| "outcome_of_error AlreadyUsed = Some CONSUMED"
| "outcome_of_error (InsufficientBalance b v) = None"
| "outcome_of_error (ContractError msg) = None"

definition outcome :: "call list \<times> (error + 'r) \<Rightarrow> classification option" where
  "outcome res =
     (if list_ex is_submission (fst res) then Some EXECUTABLE
      else case snd res of Inl e \<Rightarrow> outcome_of_error e | Inr r \<Rightarrow> None)"

text \<open>
  The scenario of the specification: an authorization valid from 1000 to 2000, looked at
  when the clock shows 500, 1500 and 2500, by the recipient (whose address is written in
  another letter case than in the authorization) and by somebody else.
\<close>

definition scenario_authorization :: authorization where
  "scenario_authorization =
     \<lparr>from_address = ''0xf39Fd6e51aad88F6F4ce6aB8827279cffFb92266'',
      to_address = ''0x70997970C51812dc3A010C7d01b50e0d17dc79C8'',
      value_units = 50000000, validAfter = 1000, validBefore = 2000,
      nonce = ''0x0101010101010101010101010101010101010101010101010101010101010101'',
      signature =
        ''0x111111111111111111111111111111111111111111111111111111111111111122222222222222222222222222222222222222222222222222222222222222221c''\<rparr>"

definition scenario_world :: "int \<Rightarrow> string \<Rightarrow> bool \<Rightarrow> nat world" where
  "scenario_world t submitter used =
     \<lparr>dateNow = t, blockTimestamp = t, signerAddress = submitter,
      authorizationState = (\<lambda>f n. used), balanceOf = (\<lambda>h. 50000000),
      estimateGas = (\<lambda>a. Inr 60000),
      sendTransfer = (\<lambda>a g. Inr 1), sendReceive = (\<lambda>a. Inr 1)\<rparr>"

definition recipient_lower :: string where
  "recipient_lower = ''0x70997970c51812dc3a010c7d01b50e0d17dc79c8''"

definition gas_station :: string where
  "gas_station = ''0x3C44CdDdB6a900fa2b585dd299e03d12FA4293BC''"

section \<open>Hexadecimal strings and bytes\<close>

text \<open>
  The scripts carry byte strings as JavaScript strings of hexadecimal digits with the
  prefix \<^verbatim>\<open>0x\<close>. \<open>hexChar\<close> is the digit of a value below 16 as
  \<^verbatim>\<open>Number.prototype.toString(16)\<close> and \<^verbatim>\<open>ethers.hexlify\<close> write it (lower
  case); \<open>hexVal\<close> reads a digit of either case, as \<^verbatim>\<open>parseInt\<close> and the
  libraries' decoders do.
\<close>

type_synonym byte = "8 word"

definition hexChar :: "nat \<Rightarrow> char" where
  "hexChar n = ''0123456789abcdef'' ! (n mod 16)"

definition hexVal :: "char \<Rightarrow> nat option" where
  "hexVal c =
     (let n = (of_char c :: nat) in
      if 48 \<le> n \<and> n \<le> 57 then Some (n - 48)
      else if 97 \<le> n \<and> n \<le> 102 then Some (n - 87)
      else if 65 \<le> n \<and> n \<le> 70 then Some (n - 55)
      else None)"

text \<open>The two digits of a byte, and a byte string in hexadecimal.\<close>

definition hex2 :: "nat \<Rightarrow> string" where
  "hex2 n = [hexChar (n div 16), hexChar n]"

definition hexs :: "byte list \<Rightarrow> string" where
  "hexs bs = concat (map (\<lambda>b. hex2 (unat b)) bs)"

definition hexlify :: "byte list \<Rightarrow> string" where
  "hexlify bs = ''0x'' @ hexs bs"

fun unhexs :: "string \<Rightarrow> byte list option" where
  "unhexs [] = Some []"
| "unhexs [c] = None"
| "unhexs (c # d # cs) =
     (case hexVal c of
        None \<Rightarrow> None
      | Some x \<Rightarrow>
          (case hexVal d of
             None \<Rightarrow> None
           | Some y \<Rightarrow>
               (case unhexs cs of
                  None \<Rightarrow> None
                | Some bs \<Rightarrow> Some (of_nat (16 * x + y) # bs))))"

text \<open>
  \<^verbatim>\<open>ethers.getBytes\<close> on a string: the prefix and whole bytes, or it throws
  (\<open>None\<close>).
\<close>

definition getBytes :: "string \<Rightarrow> byte list option" where
  "getBytes s = (if startsWith s ''0x'' then unhexs (drop 2 s) else None)"

text \<open>The \<open>n\<close> low bytes of a number, most significant first.\<close>

fun be_bytes :: "nat \<Rightarrow> nat \<Rightarrow> byte list" where
  "be_bytes 0 x = []"
| "be_bytes (Suc n) x = be_bytes n (x div 256) @ [of_nat (x mod 256)]"

definition bytes32 :: "256 word \<Rightarrow> byte list" where
  "bytes32 w = be_bytes 32 (unat w)"

text \<open>
  \<^verbatim>\<open>strip0x\<close> of the transfer examples:
  \<^verbatim>\<open>return input.startsWith("0x") ? input.slice(2) : input;\<close>
  and \<^verbatim>\<open>s.replace("0x", "")\<close> of the receive example, which removes the first
  occurrence of the pattern wherever it stands.
\<close>

definition strip0x :: "string \<Rightarrow> string" where
  "strip0x input = (if startsWith input ''0x'' then drop 2 input else input)"

fun replaceFirst :: "string \<Rightarrow> string \<Rightarrow> string \<Rightarrow> string" where
  "replaceFirst pat rep [] = (if pat = [] then rep else [])"
| "replaceFirst pat rep (c # cs) =
     (if startsWith (c # cs) pat then rep @ drop (length pat) (c # cs)
      else c # replaceFirst pat rep cs)"

text \<open>\<^verbatim>\<open>s.slice(a, b)\<close> and \<^verbatim>\<open>s.substring(a, b)\<close> for \<open>0 \<le> a \<le> b\<close>.\<close>

definition slice :: "string \<Rightarrow> nat \<Rightarrow> nat \<Rightarrow> string" where
  "slice s a b = take (b - a) (drop a s)"

subsection \<open>Numbers as text\<close>

text \<open>
  \<^verbatim>\<open>n.toString(16)\<close>: no leading zeros, a minus sign for a negative number, and
  \<^verbatim>\<open>NaN\<close> (here \<open>None\<close>) as the word itself. \<^verbatim>\<open>padStart(n, c)\<close> fills up
  on the left.
\<close>

fun toHex :: "nat \<Rightarrow> string" where
  "toHex n = (if n < 16 then [hexChar n] else toHex (n div 16) @ [hexChar n])"

declare toHex.simps [simp del]

definition toString16 :: "int option \<Rightarrow> string" where
  "toString16 x =
     (case x of
        None \<Rightarrow> ''NaN''
      | Some i \<Rightarrow> if i < 0 then CHR ''-'' # toHex (nat (- i)) else toHex (nat i))"

definition padStart :: "nat \<Rightarrow> char \<Rightarrow> string \<Rightarrow> string" where
  "padStart n c s = replicate (n - length s) c @ s"

text \<open>
  \<^verbatim>\<open>parseInt(str, 16)\<close>: leading white space is skipped, then an optional sign, then
  an optional \<^verbatim>\<open>0x\<close> or \<^verbatim>\<open>0X\<close>, then the longest run of hexadecimal digits;
  no digit at all gives \<^verbatim>\<open>NaN\<close>.
\<close>

definition isWhiteSpace :: "char \<Rightarrow> bool" where
  "isWhiteSpace c = ((of_char c :: nat) \<in> {9, 10, 11, 12, 13, 32, 160})"

definition digitsValue :: "string \<Rightarrow> nat" where
  "digitsValue ds =
     foldl (\<lambda>acc c. 16 * acc + (case hexVal c of Some d \<Rightarrow> d | None \<Rightarrow> 0)) 0 ds"

definition parseInt16 :: "string \<Rightarrow> int option" where
  "parseInt16 str =
     (let s1 = dropWhile isWhiteSpace str;
          neg = (case s1 of [] \<Rightarrow> False | c # cs \<Rightarrow> c = CHR ''-'');
          s2 = (case s1 of [] \<Rightarrow> []
                | c # cs \<Rightarrow> if c = CHR ''-'' \<or> c = CHR ''+'' then cs else s1);
          s3 = (if startsWith s2 ''0x'' \<or> startsWith s2 ''0X'' then drop 2 s2 else s2);
          ds = takeWhile (\<lambda>c. hexVal c \<noteq> None) s3
      in if ds = [] then None
         else Some (if neg then - int (digitsValue ds) else int (digitsValue ds)))"

text \<open>\<^verbatim>\<open>String(n)\<close> for a length: the decimal digits.\<close>

fun decimal :: "nat \<Rightarrow> string" where
  "decimal n = (if n < 10 then [hexChar n] else decimal (n div 10) @ [hexChar (n mod 10)])"

declare decimal.simps [simp del]

section \<open>Signature formats\<close>

datatype format_error =
    InvalidEthersSignatureFormat
  | InvalidSignatureLength nat
  | InvalidBytesLike string

text \<open>
  \<^verbatim>\<open>formatSignatureForContract\<close> (final-working-transfer.js):
  \<^verbatim>\<open>
    if (!signature.startsWith("0x") || signature.length !== 132) {
      throw new Error("Invalid ethers signature format");
    }
    const r = signature.slice(2, 66);
    const s = signature.slice(66, 130);
    const v = signature.slice(130, 132);
    const vValue = parseInt(v, 16);
    const normalizedV = vValue < 27 ? vValue + 27 : vValue;
    const packedSignature = "0x" + r + s + normalizedV.toString(16).padStart(2, "0");
    return packedSignature;
  \<close>
  A comparison with \<^verbatim>\<open>NaN\<close> is false, so \<^verbatim>\<open>NaN\<close> stays.
\<close>

definition normalizeV :: "int option \<Rightarrow> int option" where
  "normalizeV vValue =
     (case vValue of None \<Rightarrow> None | Some x \<Rightarrow> Some (if x < 27 then x + 27 else x))"

definition formatSignatureForContract :: "string \<Rightarrow> format_error + string" where
  "formatSignatureForContract sg =
     (if \<not> startsWith sg ''0x'' \<or> length sg \<noteq> 132 then Inl InvalidEthersSignatureFormat
      else
        let r = slice sg 2 66;
            s = slice sg 66 130;
            v = slice sg 130 132;
            vValue = parseInt16 v;
            normalizedV = normalizeV vValue
        in Inr (''0x'' @ r @ s @ padStart 2 (CHR ''0'') (toString16 normalizedV)))"

text \<open>
  \<^verbatim>\<open>formatSignatureForECRecover\<close> (working-receive-example.js and the final
  transfer example with the same function):
  \<^verbatim>\<open>
    const cleanSig = signature.replace("0x", "");
    if (cleanSig.length !== 130) {
      throw new Error(`Invalid signature length: ${cleanSig.length}`);
    }
    const r = cleanSig.substring(0, 64);
    const s = cleanSig.substring(64, 128);
    let v = parseInt(cleanSig.substring(128, 130), 16);
    if (v < 27) v += 27;
    const packed = r + s + v.toString(16).padStart(2, "0");
    return "0x" + packed;
  \<close>
\<close>

definition formatSignatureForECRecover :: "string \<Rightarrow> format_error + string" where
  "formatSignatureForECRecover sg =
     (let cleanSig = replaceFirst ''0x'' [] sg in
      if length cleanSig \<noteq> 130 then Inl (InvalidSignatureLength (length cleanSig))
      else
        let r = slice cleanSig 0 64;
            s = slice cleanSig 64 128;
            v = normalizeV (parseInt16 (slice cleanSig 128 130));
            packed = r @ s @ padStart 2 (CHR ''0'') (toString16 v)
        in Inr (''0x'' @ packed))"

text \<open>Applying a formatter to the result of another, an error passing through.\<close>

definition andThen ::
  "format_error + string \<Rightarrow> (string \<Rightarrow> format_error + string) \<Rightarrow> format_error + string" where
  "andThen res f = (case res of Inl e \<Rightarrow> Inl e | Inr out \<Rightarrow> f out)"

text \<open>
  The object \<^verbatim>\<open>{ v, r, s }\<close> that \<^verbatim>\<open>ecSign\<close> returns, and
  \<^verbatim>\<open>packSignature\<close> (working-transfer-test.js):
  \<^verbatim>\<open>
    return (
      strip0x(signature.r) +
      strip0x(signature.s) +
      (signature.v - 27).toString(16).padStart(2, "0")
    );
  \<close>
  whose result the script prefixes with \<^verbatim>\<open>"0x"\<close> and stores as the
  authorization's signature.
\<close>

record ecsignature =
  sig_v :: int
  sig_r :: string
  sig_s :: string

definition packSignature :: "ecsignature \<Rightarrow> string" where
  "packSignature sg =
     strip0x (sig_r sg) @ strip0x (sig_s sg)
       @ padStart 2 (CHR ''0'') (toString16 (Some (sig_v sg - 27)))"

definition packedSignature :: "ecsignature \<Rightarrow> string" where
  "packedSignature sg = ''0x'' @ packSignature sg"

text \<open>
  The signing capability is not part of the repository: \<open>sign\<close> stands for ECDSA
  signing with the holder's key, from the 32 bytes that are signed to \<open>r\<close>, \<open>s\<close>
  and the parity of the curve point. An ethers \<^verbatim>\<open>Signature\<close> shows them as
  \<^verbatim>\<open>r\<close> and \<^verbatim>\<open>s\<close> (hexadecimal strings), \<^verbatim>\<open>v\<close> (27 or 28) and
  \<^verbatim>\<open>serialized\<close> (\<open>r\<close>, \<open>s\<close> and the byte \<open>v\<close>).
\<close>

type_synonym signer = "byte list \<Rightarrow> 256 word \<times> 256 word \<times> bool"

definition ethersSignature :: "256 word \<times> 256 word \<times> bool \<Rightarrow> ecsignature" where
  "ethersSignature rsv =
     (case rsv of (r, s, yParity) \<Rightarrow>
        \<lparr>sig_v = (if yParity then 28 else 27),
         sig_r = hexlify (bytes32 r), sig_s = hexlify (bytes32 s)\<rparr>)"

definition serialized :: "256 word \<times> 256 word \<times> bool \<Rightarrow> string" where
  "serialized rsv =
     (case rsv of (r, s, yParity) \<Rightarrow>
        ''0x'' @ hexs (bytes32 r) @ hexs (bytes32 s) @ (if yParity then ''1c'' else ''1b''))"

text \<open>On a byte, \<open>normalizeV\<close> comes to this.\<close>

definition normV :: "nat \<Rightarrow> nat" where
  "normV v = (if v < 27 then v + 27 else v)"

section \<open>Digest and signing\<close>

text \<open>
  Keccak-256 belongs to the libraries, not to the repository: \<open>H\<close> stands for it, from
  bytes to the 32 bytes of the hash, read as one 256-bit word.

  \<^verbatim>\<open>web3.utils.keccak256\<close> takes a string. A string that is strictly hexadecimal
  (\<^verbatim>\<open>/^(-)?0x[0-9a-f]*$/i\<close>) is hashed as the bytes it spells, any other string as
  its UTF-8 bytes; the result is the hash in hexadecimal. The scripts only hash whole
  bytes; for a hexadecimal string of another shape (a sign, an odd number of digits) the
  model gives \<open>None\<close>.
\<close>

type_synonym keccak = "byte list \<Rightarrow> 256 word"

definition utf8ToBytes :: "string \<Rightarrow> byte list" where
  "utf8ToBytes s =
     concat (map (\<lambda>c. let n = (of_char c :: nat) in
                        if n < 128 then [of_nat n]
                        else [of_nat (192 + n div 64), of_nat (128 + n mod 64)]) s)"

definition isHexStrict :: "string \<Rightarrow> bool" where
  "isHexStrict s =
     (let t = (case s of [] \<Rightarrow> [] | c # cs \<Rightarrow> if c = CHR ''-'' then cs else s) in
      (startsWith t ''0x'' \<or> startsWith t ''0X'')
      \<and> list_all (\<lambda>c. hexVal c \<noteq> None) (drop 2 t))"

definition web3_keccak256 :: "keccak \<Rightarrow> string \<Rightarrow> string option" where
  "web3_keccak256 H data =
     (if isHexStrict data
      then (case getBytes data of
              None \<Rightarrow> None
            | Some bs \<Rightarrow> Some (hexlify (bytes32 (H bs))))
      else Some (hexlify (bytes32 (H (utf8ToBytes data)))))"

text \<open>
  \<^verbatim>\<open>web3.eth.abi.encodeParameters(types, values)\<close> for the three static types the
  scripts use. A value is what the script passes: a hexadecimal string (an address, a
  hash, the nonce after \<^verbatim>\<open>hexlify\<close>), a number (a JavaScript number, a BigInt or
  its decimal string) or a byte array (the nonce as \<^verbatim>\<open>randomBytes\<close> returns it).
  Each value takes one 32-byte word: a \<^verbatim>\<open>bytes32\<close> as it is, an
  \<^verbatim>\<open>address\<close> after twelve zero bytes, a \<^verbatim>\<open>uint256\<close> big-endian. A value that
  is not of its type's width or range gives \<open>None\<close>; the checksum of an address in
  mixed case is not looked at.
\<close>

datatype abi_type = T_bytes32 | T_address | T_uint256

datatype abi_value = HexValue string | NumValue int | BytesValue "byte list"

definition fixedBytes :: "nat \<Rightarrow> abi_value \<Rightarrow> byte list option" where
  "fixedBytes n v =
     (case v of
        HexValue s \<Rightarrow>
          (case getBytes s of
             None \<Rightarrow> None
           | Some bs \<Rightarrow> if length bs = n then Some bs else None)
      | BytesValue bs \<Rightarrow> if length bs = n then Some bs else None
      | NumValue i \<Rightarrow> None)"

fun encodeParameter :: "abi_type \<Rightarrow> abi_value \<Rightarrow> byte list option" where
  "encodeParameter T_bytes32 v = fixedBytes 32 v"
| "encodeParameter T_address v =
     (case fixedBytes 20 v of None \<Rightarrow> None | Some bs \<Rightarrow> Some (replicate 12 0 @ bs))"
| "encodeParameter T_uint256 (NumValue i) =
     (if 0 \<le> i \<and> i < 2 ^ 256 then Some (be_bytes 32 (nat i)) else None)"
| "encodeParameter T_uint256 v = None"

fun encodeWords :: "abi_type list \<Rightarrow> abi_value list \<Rightarrow> byte list option" where
  "encodeWords [] [] = Some []"
| "encodeWords (t # ts) (v # vs) =
     (case encodeParameter t v of
        None \<Rightarrow> None
      | Some w \<Rightarrow>
          (case encodeWords ts vs of None \<Rightarrow> None | Some ws \<Rightarrow> Some (w @ ws)))"
| "encodeWords ts vs = None"

definition encodeParameters :: "abi_type list \<Rightarrow> abi_value list \<Rightarrow> string option" where
  "encodeParameters types vals = map_option hexlify (encodeWords types vals)"

text \<open>
  The type hashes:
  \<^verbatim>\<open>
  const transferWithAuthorizationTypeHash = web3.utils.keccak256(
    "TransferWithAuthorization(address from,address to,uint256 value,uint256 validAfter,uint256 validBefore,bytes32 nonce)");
  const RECEIVE_WITH_AUTHORIZATION_TYPEHASH = web3.utils.keccak256(
    "ReceiveWithAuthorization(address from,address to,uint256 value,uint256 validAfter,uint256 validBefore,bytes32 nonce)");
  \<close>
\<close>

definition transferTypeString :: string where
  "transferTypeString =
     ''TransferWithAuthorization(address from,address to,uint256 value,uint256 validAfter,uint256 validBefore,bytes32 nonce)''"


definition transferWithAuthorizationTypeHash :: "keccak \<Rightarrow> string option" where
  "transferWithAuthorizationTypeHash H = web3_keccak256 H transferTypeString"


text \<open>
  The digest of \<^verbatim>\<open>signEIP712\<close> (working-transfer-test.js):
  \<^verbatim>\<open>
  const digest = web3.utils.keccak256(
    "0x1901" +
      strip0x(domainSeparator) +
      strip0x(web3.utils.keccak256(
        web3.eth.abi.encodeParameters(["bytes32", ...types], [typeHash, ...parameters]))));
  return ecSign(digest, privateKey);
  \<close>
\<close>

definition signEIP712_digest ::
  "keccak \<Rightarrow> string \<Rightarrow> string \<Rightarrow> abi_type list \<Rightarrow> abi_value list \<Rightarrow> string option" where
  "signEIP712_digest H domainSeparator typeHash types parameters =
     (case encodeParameters (T_bytes32 # types) (HexValue typeHash # parameters) of
        None \<Rightarrow> None
      | Some encoded \<Rightarrow>
          (case web3_keccak256 H encoded of
             None \<Rightarrow> None
           | Some structHash \<Rightarrow>
               web3_keccak256 H (''0x1901'' @ strip0x domainSeparator @ strip0x structHash)))"

text \<open>
  \<^verbatim>\<open>ecSign\<close>: \<^verbatim>\<open>new ethers.SigningKey(privateKey).sign(digest)\<close> signs the 32
  bytes of the digest as they are, and throws on anything that is not 32 bytes.
\<close>

definition ecSign :: "signer \<Rightarrow> string \<Rightarrow> ecsignature option" where
  "ecSign sign digest =
     (case getBytes digest of
        None \<Rightarrow> None
      | Some bs \<Rightarrow> if length bs = 32 then Some (ethersSignature (sign bs)) else None)"

definition signEIP712 ::
  "signer \<Rightarrow> keccak \<Rightarrow> string \<Rightarrow> string \<Rightarrow> abi_type list \<Rightarrow> abi_value list
     \<Rightarrow> ecsignature option" where
  "signEIP712 sign H domainSeparator typeHash types parameters =
     (case signEIP712_digest H domainSeparator typeHash types parameters of
        None \<Rightarrow> None
      | Some digest \<Rightarrow> ecSign sign digest)"

text \<open>
  \<^verbatim>\<open>signTransferAuthorization\<close>: \<^verbatim>\<open>signEIP712\<close> with the transfer type hash and
  \<^verbatim>\<open>["address", "address", "uint256", "uint256", "uint256", "bytes32"]\<close>,
  \<^verbatim>\<open>[from, to, value, validAfter, validBefore, nonce]\<close>.
\<close>

definition authorizationTypes :: "abi_type list" where
  "authorizationTypes = [T_address, T_address, T_uint256, T_uint256, T_uint256, T_bytes32]"

definition authorizationParameters ::
  "string \<Rightarrow> string \<Rightarrow> int \<Rightarrow> int \<Rightarrow> int \<Rightarrow> abi_value \<Rightarrow> abi_value list" where
  "authorizationParameters from to val after before nonce_value =
     [HexValue from, HexValue to, NumValue val, NumValue after, NumValue before, nonce_value]"

definition signTransferAuthorization_digest ::
  "keccak \<Rightarrow> string \<Rightarrow> string \<Rightarrow> int \<Rightarrow> int \<Rightarrow> int \<Rightarrow> string \<Rightarrow> string \<Rightarrow> string option" where
  "signTransferAuthorization_digest H from to val after before nonce_hex domainSeparator =
     (case transferWithAuthorizationTypeHash H of
        None \<Rightarrow> None
      | Some typeHash \<Rightarrow>
          signEIP712_digest H domainSeparator typeHash authorizationTypes
            (authorizationParameters from to val after before (HexValue nonce_hex)))"

definition signTransferAuthorization ::
  "signer \<Rightarrow> keccak \<Rightarrow> string \<Rightarrow> string \<Rightarrow> int \<Rightarrow> int \<Rightarrow> int \<Rightarrow> string \<Rightarrow> string
     \<Rightarrow> ecsignature option" where
  "signTransferAuthorization sign H from to val after before nonce_hex domainSeparator =
     (case signTransferAuthorization_digest H from to val after before nonce_hex domainSeparator of
        None \<Rightarrow> None
      | Some digest \<Rightarrow> ecSign sign digest)"




text \<open>
  \<^verbatim>\<open>signAuthorization\<close> of the same two examples:
  \<^verbatim>\<open>
    const signature = await wallet.signMessage(ethers.getBytes(authorization.digest));
    const contractSignature = formatSignatureForECRecover(signature);
    return { ...authorization, signature: contractSignature };
  \<close>
  \<^verbatim>\<open>wallet.signMessage(message)\<close> is the library's personal-message signing
  (EIP-191): it signs \<^verbatim>\<open>hashMessage(message)\<close>, the hash of
  \<^verbatim>\<open>"\x19Ethereum Signed Message:\n"\<close>, the length of the message in decimal, and
  the message, and returns the serialized signature.
\<close>

definition MessagePrefix :: "byte list" where
  "MessagePrefix = 25 # utf8ToBytes (''Ethereum Signed Message:'' @ [char_of (10 :: nat)])"

definition hashMessage :: "keccak \<Rightarrow> byte list \<Rightarrow> 256 word" where
  "hashMessage H message =
     H (MessagePrefix @ utf8ToBytes (decimal (length message)) @ message)"

definition signMessage :: "signer \<Rightarrow> keccak \<Rightarrow> byte list \<Rightarrow> string" where
  "signMessage sign H message = serialized (sign (bytes32 (hashMessage H message)))"

definition signAuthorization :: "signer \<Rightarrow> keccak \<Rightarrow> string \<Rightarrow> format_error + string" where
  "signAuthorization sign H digest =
     (case getBytes digest of
        None \<Rightarrow> Inl (InvalidBytesLike digest)
      | Some message \<Rightarrow> formatSignatureForECRecover (signMessage sign H message))"

subsection \<open>The digest in the specification's words\<close>








definition sample_signature :: "byte list" where
  "sample_signature = replicate 32 17 @ replicate 32 34 @ [28]"

section \<open>Amounts\<close>

text \<open>
  Every example converts the amount with
  \<^verbatim>\<open>ethers.parseUnits(amount.toString(), 6)\<close>. The library reads the string with
  \<^verbatim>\<open>/^(-?)([0-9]*)\.?([0-9]*)$/\<close>, wants a digit on one side of the point at
  least, pads the fraction with zeros up to the number of decimals, refuses a fraction
  with more non-zero places than that, and returns the whole and the fraction, read
  together as one integer, with the sign; the value must fit 512 bits with a sign.
\<close>

datatype units_error = InvalidFixedNumberString | TooManyDecimals | Overflow

definition isDigit :: "char \<Rightarrow> bool" where
  "isDigit c = (48 \<le> (of_char c :: nat) \<and> (of_char c :: nat) \<le> 57)"

definition decimalValue :: "string \<Rightarrow> nat" where
  "decimalValue ds = foldl (\<lambda>acc c. 10 * acc + ((of_char c :: nat) - 48)) 0 ds"

definition parseUnits :: "string \<Rightarrow> nat \<Rightarrow> units_error + int" where
  "parseUnits val decimals =
     (let negative = startsWith val ''-'';
          body = (if negative then drop 1 val else val);
          whole = takeWhile isDigit body;
          rest = dropWhile isDigit body;
          fraction = (case rest of [] \<Rightarrow> []
                      | c # cs \<Rightarrow> if c = CHR ''.'' then cs else rest)
      in if \<not> list_all isDigit fraction \<or> length whole + length fraction = 0
         then Inl InvalidFixedNumberString
         else
           let padded = fraction @ replicate (decimals - length fraction) (CHR ''0'') in
           if \<not> list_all (\<lambda>c. c = CHR ''0'') (drop decimals padded) then Inl TooManyDecimals
           else
             let magnitude = decimalValue ((if whole = [] then ''0'' else whole)
                                            @ take decimals padded)
             in if (negative \<and> magnitude > 2 ^ 511) \<or> (\<not> negative \<and> magnitude \<ge> 2 ^ 511)
                then Inl Overflow
                else Inr (if negative then - int magnitude else int magnitude))"

text \<open>
  The examples that build an authorization sign it with
  \<^verbatim>\<open>await holderSigner.signTypedData(domain, types, message)\<close>. The wallet encodes
  every field of the message by its declared type and throws where a value does not fit:
  the three \<^verbatim>\<open>uint256\<close> fields must lie in \<open>0 \<le> x < 2 ^ 256\<close>. That check is
  written out; the rest of the wallet's work (resolving and checking the two addresses,
  the 32 bytes of the nonce, hashing, signing with the key) is the argument \<open>wallet\<close>,
  which gives the signature or \<open>None\<close> where it throws.
\<close>

definition uint256 :: "int \<Rightarrow> bool" where
  "uint256 x = (0 \<le> x \<and> x < 2 ^ 256)"

definition signTypedData ::
  "(authorization \<Rightarrow> string option) \<Rightarrow> authorization \<Rightarrow> string option" where
  "signTypedData wallet message =
     (if uint256 (value_units message) \<and> uint256 (validAfter message)
         \<and> uint256 (validBefore message)
      then wallet message else None)"

text \<open>
  What building an authorization can throw: the error of the amount conversion, or
  whatever the wallet throws when it refuses to sign.
\<close>

datatype create_error = ConversionError units_error | SigningRefused

text \<open>
  \<^verbatim>\<open>createTransferAuthorization\<close> (run-transfer-example.js), with the random nonce
  and the clock given from outside:
  \<^verbatim>\<open>
    const nonce = ethers.randomBytes(32);
    const validAfter = 0;
    const validBefore = Math.floor(Date.now() / 1000) + 24 * 60 * 60;
    const message = { from: holderAddress, to: recipientAddress,
      value: ethers.parseUnits(amount.toString(), 6),
      validAfter: validAfter, validBefore: validBefore, nonce: nonce };
    const signature = await holderSigner.signTypedData(domain, types, message);
    return { ...message, signature };
  \<close>
  The amount reaches the model as the string \<^verbatim>\<open>amount.toString()\<close>.
  \<open>transferMessage\<close> is the object \<^verbatim>\<open>message\<close>, not yet signed.
\<close>

definition transferMessage :: "string \<Rightarrow> string \<Rightarrow> int \<Rightarrow> string \<Rightarrow> int \<Rightarrow> authorization" where
  "transferMessage holderAddress recipientAddress v nonce_hex now =
     \<lparr>from_address = holderAddress, to_address = recipientAddress,
      value_units = v, validAfter = 0, validBefore = now + 24 * 60 * 60,
      nonce = nonce_hex, signature = []\<rparr>"

definition createTransferAuthorization ::
  "(authorization \<Rightarrow> string option) \<Rightarrow> string \<Rightarrow> string \<Rightarrow> string \<Rightarrow> string \<Rightarrow> int
     \<Rightarrow> create_error + authorization" where
  "createTransferAuthorization wallet holderAddress recipientAddress amount nonce_hex now =
     (case parseUnits amount 6 of
        Inl e \<Rightarrow> Inl (ConversionError e)
      | Inr v \<Rightarrow>
          let message = transferMessage holderAddress recipientAddress v nonce_hex now in
          case signTypedData wallet message of
            None \<Rightarrow> Inl SigningRefused
          | Some sg \<Rightarrow> Inr (message\<lparr>signature := sg\<rparr>))"

text \<open>
  \<^verbatim>\<open>AuthorizationSender.createReceiveAuthorization\<close> (the example that creates and
  sends authorizations) differs in the window, which starts now and lasts
  \<^verbatim>\<open>validHours\<close>:
  \<^verbatim>\<open>
    const validAfter = Math.floor(Date.now() / 1000);
    const validBefore = validAfter + validHours * 60 * 60;
    const message = { from: signerAddress, to: recipientAddress,
      value: ethers.parseUnits(amount.toString(), 6),
      validAfter: validAfter, validBefore: validBefore, nonce: nonce };
    const signature = await this.signerWallet.signTypedData(domain, types, message);
  \<close>
\<close>

definition receiveMessage ::
  "string \<Rightarrow> string \<Rightarrow> int \<Rightarrow> int \<Rightarrow> string \<Rightarrow> int \<Rightarrow> authorization" where
  "receiveMessage signerAddr recipientAddress v validHours nonce_hex now =
     \<lparr>from_address = signerAddr, to_address = recipientAddress,
      value_units = v, validAfter = now, validBefore = now + validHours * 60 * 60,
      nonce = nonce_hex, signature = []\<rparr>"

definition createReceiveAuthorization ::
  "(authorization \<Rightarrow> string option) \<Rightarrow> string \<Rightarrow> string \<Rightarrow> string \<Rightarrow> int \<Rightarrow> string \<Rightarrow> int
     \<Rightarrow> create_error + authorization" where
  "createReceiveAuthorization wallet signerAddr recipientAddress amount validHours
       nonce_hex now =
     (case parseUnits amount 6 of
        Inl e \<Rightarrow> Inl (ConversionError e)
      | Inr v \<Rightarrow>
          let message = receiveMessage signerAddr recipientAddress v validHours nonce_hex now in
          case signTypedData wallet message of
            None \<Rightarrow> Inl SigningRefused
          | Some sg \<Rightarrow> Inr (message\<lparr>signature := sg\<rparr>))"

text \<open>
  A wallet for the sample data: it signs whatever fits the types, with the signature of
  the scenario's authorization.
\<close>

definition sample_wallet :: "authorization \<Rightarrow> string option" where
  "sample_wallet message = Some (signature scenario_authorization)"

section \<open>Properties of the execution helpers\<close>

lemma scenario_world_fields:
  "dateNow (scenario_world t s u) = t"
  "blockTimestamp (scenario_world t s u) = t"
  "signerAddress (scenario_world t s u) = s"
  "authorizationState (scenario_world t s u) f n = u"
  "sendTransfer (scenario_world t s u) a g = Inr 1"
  "sendReceive (scenario_world t s u) a = Inr 1"
  by (simp_all add: scenario_world_def)

lemma scenario_authorization_fields:
  "validAfter scenario_authorization = 1000"
  "validBefore scenario_authorization = 2000"
  by (simp_all add: scenario_authorization_def)

lemma scenario_recipient_matches:
  "toLowerCase recipient_lower = toLowerCase (to_address scenario_authorization)"
  by code_simp

lemma scenario_gas_station_differs:
  "toLowerCase gas_station \<noteq> toLowerCase (to_address scenario_authorization)"
  by code_simp

text \<open>
  C8. An authorization that fails a pre-flight check is never submitted. In each helper,
  when the clock is before \<open>validAfter\<close> (in \<open>executeTransferWithAuth\<close>: more than
  the 60 seconds of tolerance before it), or after \<open>validBefore\<close>, or the contract
  reports the nonce used, the helper throws and its log of external calls holds no call of
  \<open>transferWithAuthorization\<close> or \<open>receiveWithAuthorization\<close>.
\<close>

theorem preflight_failure_never_submits:
  "(dateNow w < validAfter a \<or> dateNow w > validBefore a
      \<or> authorizationState w (from_address a) (nonce a)
     \<longrightarrow> threw (transferWithAuthorization w a)
         \<and> \<not> submitted (transferWithAuthorization w a))
   \<and> (dateNow w < validAfter a \<or> dateNow w > validBefore a
      \<or> authorizationState w (from_address a) (nonce a)
     \<longrightarrow> threw (receiveWithAuthorization w a)
         \<and> \<not> submitted (receiveWithAuthorization w a))
   \<and> (blockTimestamp w < validAfter a - 60 \<or> blockTimestamp w > validBefore a
      \<or> authorizationState w (from_address a) (nonce a)
     \<longrightarrow> threw (executeTransferWithAuth w a)
         \<and> \<not> submitted (executeTransferWithAuth w a))"
  by (auto simp: transferWithAuthorization_def receiveWithAuthorization_def
      executeTransferWithAuth_def threw_def submitted_def Let_def)

theorem preflight_failure_never_submits_witness:
  "dateNow (scenario_world 500 recipient_lower False) < validAfter scenario_authorization
   \<and> blockTimestamp (scenario_world 500 recipient_lower False)
       < validAfter scenario_authorization - 60
   \<and> threw (transferWithAuthorization (scenario_world 500 recipient_lower False)
        scenario_authorization)
   \<and> \<not> submitted (transferWithAuthorization (scenario_world 500 recipient_lower False)
        scenario_authorization)
   \<and> threw (receiveWithAuthorization (scenario_world 500 recipient_lower False)
        scenario_authorization)
   \<and> \<not> submitted (receiveWithAuthorization (scenario_world 500 recipient_lower False)
        scenario_authorization)
   \<and> threw (executeTransferWithAuth (scenario_world 500 recipient_lower False)
        scenario_authorization)
   \<and> \<not> submitted (executeTransferWithAuth (scenario_world 500 recipient_lower False)
        scenario_authorization)"
proof -
  have early: "dateNow (scenario_world 500 recipient_lower False)
      < validAfter scenario_authorization"
    by (simp add: scenario_world_fields scenario_authorization_fields)
  have early_block: "blockTimestamp (scenario_world 500 recipient_lower False)
      < validAfter scenario_authorization - 60"
    by (simp add: scenario_world_fields scenario_authorization_fields)
  from early early_block
    preflight_failure_never_submits
      [of "scenario_world 500 recipient_lower False" scenario_authorization]
  show ?thesis by blast
qed

text \<open>
  C10. In \<open>receiveWithAuthorization\<close> the recipient check comes before the time and nonce
  checks: when the \<open>to\<close> field differs from the receiver's address after lower-casing
  both, the helper throws the recipient-mismatch error, whatever the clock and the
  nonce's state are, and it has asked the contract nothing.
\<close>

theorem recipient_check_comes_first:
  "toLowerCase (to_address a) \<noteq> toLowerCase (signerAddress w) \<Longrightarrow>
   receiveWithAuthorization w a
     = ([GetAddress], Inl (ToMismatch (to_address a) (signerAddress w)))"
  by (simp add: receiveWithAuthorization_def)

theorem recipient_check_comes_first_witness:
  "toLowerCase (to_address scenario_authorization)
     \<noteq> toLowerCase (signerAddress (scenario_world 2500 gas_station True))
   \<and> validBefore scenario_authorization < dateNow (scenario_world 2500 gas_station True)
   \<and> authorizationState (scenario_world 2500 gas_station True)
        (from_address scenario_authorization) (nonce scenario_authorization)
   \<and> receiveWithAuthorization (scenario_world 2500 gas_station True) scenario_authorization
     = ([GetAddress], Inl (ToMismatch (to_address scenario_authorization) gas_station))"
proof -
  have differs: "toLowerCase (to_address scenario_authorization)
      \<noteq> toLowerCase (signerAddress (scenario_world 2500 gas_station True))"
    using scenario_gas_station_differs by (simp add: scenario_world_fields)
  from recipient_check_comes_first [OF differs] differs
  show ?thesis by (simp add: scenario_world_fields scenario_authorization_fields)
qed

text \<open>
  C6. For a receive authorization, a submitter whose address differs from \<open>to\<close> after
  lower-casing both gets the recipient-mismatch error, which is the state
  \<open>UNAUTHORIZED_SUBMITTER\<close> and none of executable, expired, consumed or pending. A
  submitter whose address equals \<open>to\<close> up to letter case passes the check: the helper
  then stands exactly where the unrestricted transfer helper stands with the same
  clock and nonce state.
\<close>

theorem receive_submitter_rule:
  assumes "toLowerCase s1 \<noteq> toLowerCase (to_address a)"
    and "toLowerCase s2 = toLowerCase (to_address a)"
  shows "outcome (receiveWithAuthorization (w\<lparr>signerAddress := s1\<rparr>) a)
           = Some UNAUTHORIZED_SUBMITTER
       \<and> snd (receiveWithAuthorization (w\<lparr>signerAddress := s1\<rparr>) a)
           = Inl (ToMismatch (to_address a) s1)
       \<and> outcome (receiveWithAuthorization (w\<lparr>signerAddress := s1\<rparr>) a)
           \<notin> {Some EXECUTABLE, Some EXPIRED, Some CONSUMED, Some PENDING}
       \<and> outcome (receiveWithAuthorization (w\<lparr>signerAddress := s2\<rparr>) a)
           = outcome (transferWithAuthorization w a)
       \<and> submitted (receiveWithAuthorization (w\<lparr>signerAddress := s2\<rparr>) a)
           = (validAfter a \<le> dateNow w \<and> dateNow w \<le> validBefore a
              \<and> \<not> authorizationState w (from_address a) (nonce a))"
  using assms
  by (auto simp: receiveWithAuthorization_def transferWithAuthorization_def
      outcome_def submitted_def Let_def)

theorem receive_submitter_rule_witness:
  "toLowerCase gas_station \<noteq> toLowerCase (to_address scenario_authorization)
   \<and> toLowerCase recipient_lower = toLowerCase (to_address scenario_authorization)
   \<and> recipient_lower \<noteq> to_address scenario_authorization
   \<and> outcome (receiveWithAuthorization
        ((scenario_world 1500 [] False)\<lparr>signerAddress := gas_station\<rparr>)
        scenario_authorization) = Some UNAUTHORIZED_SUBMITTER
   \<and> outcome (receiveWithAuthorization
        ((scenario_world 1500 [] False)\<lparr>signerAddress := recipient_lower\<rparr>)
        scenario_authorization) = Some EXECUTABLE
   \<and> submitted (receiveWithAuthorization
        ((scenario_world 1500 [] False)\<lparr>signerAddress := recipient_lower\<rparr>)
        scenario_authorization)"
proof -
  have other_case: "recipient_lower \<noteq> to_address scenario_authorization"
    by (simp add: recipient_lower_def scenario_authorization_def)
  have transfer: "outcome (transferWithAuthorization (scenario_world 1500 [] False)
      scenario_authorization) = Some EXECUTABLE"
    by (simp add: transferWithAuthorization_def outcome_def scenario_world_fields
        scenario_authorization_fields)
  from receive_submitter_rule
      [OF scenario_gas_station_differs scenario_recipient_matches,
       of "scenario_world 1500 [] False"]
    scenario_gas_station_differs scenario_recipient_matches other_case transfer
  show ?thesis by (simp add: scenario_world_fields scenario_authorization_fields)
qed

text \<open>
  C5, as the code has it, for the two helpers \<open>transferWithAuthorization\<close> and
  \<open>receiveWithAuthorization\<close>. They do not return a classification: they signal every
  state but the executable one by throwing. What holds is that the inputs decide exactly
  one of the five states. For \<open>transferWithAuthorization\<close>: pending when the clock is
  before \<open>validAfter\<close>, else expired when it is after \<open>validBefore\<close>, else consumed
  when the nonce is reported used, else executable. For \<open>receiveWithAuthorization\<close>
  the recipient check comes before these. Each of the two throws unless the state is
  executable and the contract call succeeds. (\<open>executeTransferWithAuth\<close>, with its
  buffer and its balance and gas checks, has other results and is not meant here.)
\<close>

theorem helper_outcomes:
  "outcome (transferWithAuthorization w a) =
     Some (if dateNow w < validAfter a then PENDING
           else if dateNow w > validBefore a then EXPIRED
           else if authorizationState w (from_address a) (nonce a) then CONSUMED
           else EXECUTABLE)
   \<and> outcome (receiveWithAuthorization w a) =
     Some (if toLowerCase (to_address a) \<noteq> toLowerCase (signerAddress w)
           then UNAUTHORIZED_SUBMITTER
           else if dateNow w < validAfter a then PENDING
           else if dateNow w > validBefore a then EXPIRED
           else if authorizationState w (from_address a) (nonce a) then CONSUMED
           else EXECUTABLE)
   \<and> (\<not> threw (transferWithAuthorization w a)) =
       (outcome (transferWithAuthorization w a) = Some EXECUTABLE
        \<and> \<not> isl (sendTransfer w a None))
   \<and> (\<not> threw (receiveWithAuthorization w a)) =
       (outcome (receiveWithAuthorization w a) = Some EXECUTABLE
        \<and> \<not> isl (sendReceive w a))"
  by (auto simp: transferWithAuthorization_def receiveWithAuthorization_def
      outcome_def threw_def Let_def fromContract_def split: sum.splits)

theorem helper_outcomes_witness:
  "outcome (transferWithAuthorization (scenario_world 500 gas_station False)
      scenario_authorization) = Some PENDING
   \<and> outcome (transferWithAuthorization (scenario_world 1500 gas_station False)
      scenario_authorization) = Some EXECUTABLE
   \<and> outcome (transferWithAuthorization (scenario_world 1500 gas_station True)
      scenario_authorization) = Some CONSUMED
   \<and> outcome (transferWithAuthorization (scenario_world 2500 gas_station True)
      scenario_authorization) = Some EXPIRED
   \<and> outcome (receiveWithAuthorization (scenario_world 1500 gas_station False)
      scenario_authorization) = Some UNAUTHORIZED_SUBMITTER
   \<and> threw (transferWithAuthorization (scenario_world 500 gas_station False)
      scenario_authorization)"
proof -
  have differs: "toLowerCase (to_address scenario_authorization)
      \<noteq> toLowerCase gas_station"
    using scenario_gas_station_differs by simp
  have pending: "outcome (transferWithAuthorization (scenario_world 500 gas_station False)
      scenario_authorization) = Some PENDING"
    using helper_outcomes [of "scenario_world 500 gas_station False" scenario_authorization]
    by (simp add: scenario_world_fields scenario_authorization_fields)
  have executable: "outcome (transferWithAuthorization
      (scenario_world 1500 gas_station False) scenario_authorization) = Some EXECUTABLE"
    using helper_outcomes [of "scenario_world 1500 gas_station False" scenario_authorization]
    by (simp add: scenario_world_fields scenario_authorization_fields)
  have consumed: "outcome (transferWithAuthorization
      (scenario_world 1500 gas_station True) scenario_authorization) = Some CONSUMED"
    using helper_outcomes [of "scenario_world 1500 gas_station True" scenario_authorization]
    by (simp add: scenario_world_fields scenario_authorization_fields)
  have expired: "outcome (transferWithAuthorization
      (scenario_world 2500 gas_station True) scenario_authorization) = Some EXPIRED"
    using helper_outcomes [of "scenario_world 2500 gas_station True" scenario_authorization]
    by (simp add: scenario_world_fields scenario_authorization_fields)
  have refused: "outcome (receiveWithAuthorization
      (scenario_world 1500 gas_station False) scenario_authorization)
        = Some UNAUTHORIZED_SUBMITTER"
    using differs
      helper_outcomes [of "scenario_world 1500 gas_station False" scenario_authorization]
    by (simp add: scenario_world_fields scenario_authorization_fields)
  have "(\<not> threw (transferWithAuthorization (scenario_world 500 gas_station False)
      scenario_authorization)) = (Some PENDING = Some EXECUTABLE
        \<and> \<not> isl (sendTransfer (scenario_world 500 gas_station False)
             scenario_authorization None))"
    using helper_outcomes [of "scenario_world 500 gas_station False" scenario_authorization]
    unfolding pending by blast
  then have throws: "threw (transferWithAuthorization
      (scenario_world 500 gas_station False) scenario_authorization)"
    by simp
  from pending executable consumed expired refused throws show ?thesis by blast
qed

text \<open>
  That validation never throws for an authorization that is merely not yet valid does
  not hold of the helpers: with the clock at 500 and \<open>validAfter\<close> at 1000 the
  transfer helper throws "Authorization is not yet valid" and returns nothing.
\<close>

theorem validation_throws_when_pending:
  "transferWithAuthorization (scenario_world 500 gas_station False) scenario_authorization
     = ([], Inl NotYetValid)"
  by (simp add: transferWithAuthorization_def scenario_world_fields
      scenario_authorization_fields)

section \<open>Properties of the hexadecimal codec\<close>

lemma hexVal_hexChar: "hexVal (hexChar n) = Some (n mod 16)"
proof -
  have "\<forall>k \<in> set [0..<16]. hexVal (hexChar k) = Some k" by code_simp
  moreover have "n mod 16 \<in> set [0..<16]" by simp
  ultimately have "hexVal (hexChar (n mod 16)) = Some (n mod 16)" by blast
  then show ?thesis by (simp add: hexChar_def)
qed

lemma unat_byte_less: "unat (b :: byte) < 256"
proof -
  have "unat b < 2 ^ LENGTH(8)" by (rule unsigned_less)
  then show ?thesis by simp
qed

lemma unhexs_hex2:
  "unhexs (hex2 (unat (b :: byte)) @ cs) = map_option ((#) b) (unhexs cs)"
proof -
  have "unat b div 16 mod 16 = unat b div 16" using unat_byte_less [of b] by simp
  then have "16 * (unat b div 16 mod 16) + unat b mod 16 = unat b" by simp
  then show ?thesis
    by (cases "unhexs cs") (simp_all add: hex2_def hexVal_hexChar)
qed

lemma unhexs_hexs_append: "unhexs (hexs bs @ cs) = map_option ((@) bs) (unhexs cs)"
proof (induction bs)
  case Nil
  then show ?case by (simp add: hexs_def option.map_ident)
next
  case (Cons b bs)
  have "unhexs (hexs (b # bs) @ cs) = unhexs (hex2 (unat b) @ (hexs bs @ cs))"
    by (simp add: hexs_def)
  also have "\<dots> = map_option ((#) b) (unhexs (hexs bs @ cs))" by (rule unhexs_hex2)
  also have "\<dots> = map_option ((@) (b # bs)) (unhexs cs)"
    by (cases "unhexs cs") (simp_all add: Cons.IH)
  finally show ?case .
qed

lemma unhexs_hexs: "unhexs (hexs bs) = Some bs"
  using unhexs_hexs_append [of bs "[]"] by simp



lemma hexs_append: "hexs (a @ b) = hexs a @ hexs b"
  by (simp add: hexs_def)

lemma length_hex2: "length (hex2 v) = 2"
  by (simp add: hex2_def)

lemma length_hexs: "length (hexs bs) = 2 * length bs"
  by (induction bs) (simp_all add: hexs_def hex2_def)

lemma length_be_bytes: "length (be_bytes n x) = n"
  by (induction n arbitrary: x) simp_all

lemma length_bytes32: "length (bytes32 w) = 32"
  by (simp add: bytes32_def length_be_bytes)

lemma getBytes_hexlify: "getBytes (hexlify bs) = Some bs"
  by (simp add: getBytes_def hexlify_def unhexs_hexs)


lemma strip0x_getBytes:
  assumes "getBytes s = Some bs"
  shows "strip0x s = drop 2 s" and "replaceFirst ''0x'' [] s = drop 2 s"
proof -
  from assms have sw: "startsWith s ''0x''" by (auto simp: getBytes_def split: if_splits)
  then show "strip0x s = drop 2 s" by (simp add: strip0x_def)
  from sw show "replaceFirst ''0x'' [] s = drop 2 s"
    by (cases s) auto
qed

lemma strip0x_hexlify:
  "strip0x (hexlify bs) = hexs bs" "replaceFirst ''0x'' [] (hexlify bs) = hexs bs"
  using strip0x_getBytes [OF getBytes_hexlify, of bs] by (simp_all add: hexlify_def)

lemma hex2_small: "hex2 27 = ''1b''" "hex2 28 = ''1c''" "hex2 0 = ''00''" "hex2 1 = ''01''"
  by code_simp+

subsection \<open>Reading and writing one byte\<close>

lemma hexVal_not_special:
  assumes "hexVal c = Some x"
  shows "\<not> isWhiteSpace c" "c \<noteq> CHR ''-''" "c \<noteq> CHR ''+''"
    "c \<noteq> CHR ''x''" "c \<noteq> CHR ''X''"
  using assms by (auto simp: hexVal_def isWhiteSpace_def Let_def split: if_splits)

lemma parseInt16_two_digits:
  assumes "hexVal c = Some x" "hexVal d = Some y"
  shows "parseInt16 [c, d] = Some (int (16 * x + y))"
  using assms hexVal_not_special [OF assms(1)] hexVal_not_special [OF assms(2)]
  by (simp add: parseInt16_def digitsValue_def)

lemma parseInt16_hex2: "v < 256 \<Longrightarrow> parseInt16 (hex2 v) = Some (int v)"
proof -
  assume v: "v < 256"
  then have "v div 16 mod 16 = v div 16" by simp
  then have "parseInt16 [hexChar (v div 16), hexChar v]
      = Some (int (16 * (v div 16) + v mod 16))"
    using parseInt16_two_digits [OF hexVal_hexChar hexVal_hexChar, of "v div 16" v] by simp
  then show ?thesis by (simp add: hex2_def)
qed

lemma padStart_toHex: "n < 256 \<Longrightarrow> padStart 2 (CHR ''0'') (toHex n) = hex2 n"
proof -
  assume n: "n < 256"
  show ?thesis
  proof (cases "n < 16")
    case True
    then show ?thesis by (simp add: toHex.simps padStart_def hex2_def hexChar_def)
  next
    case False
    with n have "n div 16 < 16" by simp
    with False show ?thesis
      by (simp add: toHex.simps [of n] toHex.simps [of "n div 16"] padStart_def hex2_def)
  qed
qed

lemma normV_idem: "normV (normV v) = normV v"
  by (simp add: normV_def)

lemma normV_bound: "v < 256 \<Longrightarrow> normV v < 256"
  by (simp add: normV_def)

lemma normalized_byte:
  assumes "v < 256"
  shows "padStart 2 (CHR ''0'') (toString16 (normalizeV (parseInt16 (hex2 v))))
         = hex2 (normV v)"
proof -
  have "padStart 2 (CHR ''0'') (toHex (normV v)) = hex2 (normV v)"
    by (rule padStart_toHex [OF normV_bound [OF assms]])
  moreover have "normalizeV (parseInt16 (hex2 v)) = Some (int (normV v))"
    using assms by (simp add: parseInt16_hex2 normalizeV_def normV_def)
  ultimately show ?thesis by (simp add: toString16_def)
qed

section \<open>Properties of the signature formats\<close>

text \<open>
  Both formatters, on a signature written as the prefix, 64 characters for \<open>r\<close>, 64 for
  \<open>s\<close> and the two digits of the byte \<open>v\<close>: \<open>r\<close> and \<open>s\<close> are copied, the byte is
  raised by 27 when it is below 27.
\<close>

lemma formatSignatureForContract_canonical:
  assumes "length r = 64" "length s = 64" "v < 256"
  shows "formatSignatureForContract (''0x'' @ r @ s @ hex2 v)
         = Inr (''0x'' @ r @ s @ hex2 (normV v))"
  using assms normalized_byte [OF assms(3)]
  by (simp add: formatSignatureForContract_def slice_def length_hex2 Let_def)

lemma formatSignatureForECRecover_canonical:
  assumes "length r = 64" "length s = 64" "v < 256"
  shows "formatSignatureForECRecover (''0x'' @ r @ s @ hex2 v)
         = Inr (''0x'' @ r @ s @ hex2 (normV v))"
  using assms normalized_byte [OF assms(3)]
  by (simp add: formatSignatureForECRecover_def slice_def length_hex2 Let_def)

lemma normalization_idempotent_strings:
  assumes "length r = 64" "length s = 64" "v < 256"
  shows "(v = 27 \<or> v = 28 \<longrightarrow>
            formatSignatureForContract (''0x'' @ r @ s @ hex2 v)
              = Inr (''0x'' @ r @ s @ hex2 v)
          \<and> formatSignatureForECRecover (''0x'' @ r @ s @ hex2 v)
              = Inr (''0x'' @ r @ s @ hex2 v))
       \<and> andThen (formatSignatureForContract (''0x'' @ r @ s @ hex2 v))
             formatSignatureForContract
           = formatSignatureForContract (''0x'' @ r @ s @ hex2 v)
       \<and> andThen (formatSignatureForECRecover (''0x'' @ r @ s @ hex2 v))
             formatSignatureForECRecover
           = formatSignatureForECRecover (''0x'' @ r @ s @ hex2 v)"
proof -
  let ?inp = "''0x'' @ r @ s @ hex2 v"
  let ?out = "''0x'' @ r @ s @ hex2 (normV v)"
  have c0: "formatSignatureForContract ?inp = Inr ?out"
    by (rule formatSignatureForContract_canonical [OF assms])
  have e0: "formatSignatureForECRecover ?inp = Inr ?out"
    by (rule formatSignatureForECRecover_canonical [OF assms])
  have c1: "formatSignatureForContract ?out = Inr ?out"
    using formatSignatureForContract_canonical [OF assms(1,2) normV_bound [OF assms(3)]]
    by (simp only: normV_idem)
  have e1: "formatSignatureForECRecover ?out = Inr ?out"
    using formatSignatureForECRecover_canonical [OF assms(1,2) normV_bound [OF assms(3)]]
    by (simp only: normV_idem)
  have same: "v = 27 \<or> v = 28 \<Longrightarrow> normV v = v" by (auto simp: normV_def)
  have unchanged: "v = 27 \<or> v = 28 \<longrightarrow>
      formatSignatureForContract ?inp = Inr ?inp \<and> formatSignatureForECRecover ?inp = Inr ?inp"
    using c0 e0 same by auto
  have twice_c: "andThen (formatSignatureForContract ?inp) formatSignatureForContract
      = formatSignatureForContract ?inp"
    by (simp only: c0 c1 andThen_def sum.case)
  have twice_e: "andThen (formatSignatureForECRecover ?inp) formatSignatureForECRecover
      = formatSignatureForECRecover ?inp"
    by (simp only: e0 e1 andThen_def sum.case)
  from unchanged twice_c twice_e show ?thesis by blast
qed

text \<open>A signature of 65 bytes, as \<^verbatim>\<open>hexlify\<close> writes it, has that shape.\<close>

lemma split_signature:
  assumes "length sg = 65"
  shows "hexlify sg = ''0x'' @ hexs (take 32 sg) @ hexs (take 32 (drop 32 sg))
           @ hex2 (unat (last sg))"
proof -
  have "sg = take 32 sg @ take 32 (drop 32 sg) @ drop 64 sg"
    by (metis append_take_drop_id drop_drop numeral_Bit0)
  moreover have "drop 64 sg = [last sg]"
  proof -
    from assms have "length (drop 64 sg) = 1" by simp
    then obtain x where x: "drop 64 sg = [x]"
      by (cases "drop 64 sg") auto
    with assms have "last sg = x"
      by (metis append_take_drop_id last_snoc)
    with x show ?thesis by simp
  qed
  ultimately have "sg = take 32 sg @ take 32 (drop 32 sg) @ [last sg]" by simp
  then have "hexs sg = hexs (take 32 sg) @ hexs (take 32 (drop 32 sg)) @ hexs [last sg]"
    by (metis hexs_append)
  then show ?thesis by (simp add: hexlify_def hexs_def)
qed

text \<open>
  What \<open>formatSignatureForContract\<close> returns on any signature of 65 bytes: 65 bytes
  again, the first 64 as they were, the last one normalized. With a last byte of 0, 1, 27
  or 28 the result ends in 27 or 28.
\<close>

lemma formatSignatureForContract_bytes:
  assumes "length sg = 65"
  shows "formatSignatureForContract (hexlify sg)
         = Inr (hexlify (butlast sg @ [of_nat (normV (unat (last sg)))]))"
proof -
  let ?r = "hexs (take 32 sg)" and ?s = "hexs (take 32 (drop 32 sg))"
  let ?out = "butlast sg @ [of_nat (normV (unat (last sg))) :: byte]"
  have r: "length ?r = 64" and s: "length ?s = 64"
    using assms by (simp_all add: length_hexs)
  have len: "length ?out = 65" using assms by simp
  have nv: "normV (unat (last sg)) < 256"
    using unat_byte_less [of "last sg"] by (simp add: normV_def)
  then have un: "unat (of_nat (normV (unat (last sg))) :: byte) = normV (unat (last sg))"
    by (simp add: unat_of_nat)
  have "take 32 ?out = take 32 sg" "take 32 (drop 32 ?out) = take 32 (drop 32 sg)"
    using assms by (simp_all add: butlast_conv_take drop_take)
  with split_signature [OF len] un
  have "hexlify ?out = ''0x'' @ ?r @ ?s @ hex2 (normV (unat (last sg)))" by simp
  with formatSignatureForContract_canonical [OF r s unat_byte_less [of "last sg"]]
  show ?thesis unfolding split_signature [OF assms, symmetric] by simp
qed

lemma normalized_final_byte:
  "v \<in> {0, 1, 27, 28} \<Longrightarrow> normV v \<in> {27, 28}"
  by (auto simp: normV_def)

text \<open>
  C9. Signature normalization is idempotent. For every signature of 65 bytes, written in
  hexadecimal as the signing library writes it: when the last byte is 27 or 28, each of
  the two formatters returns its input; and for any last byte, formatting the result once
  more returns the same result.
\<close>

theorem signature_normalization_idempotent:
  assumes "length sg = 65"
  shows "(last sg = 27 \<or> last sg = 28 \<longrightarrow>
            formatSignatureForContract (hexlify sg) = Inr (hexlify sg)
          \<and> formatSignatureForECRecover (hexlify sg) = Inr (hexlify sg))
       \<and> andThen (formatSignatureForContract (hexlify sg)) formatSignatureForContract
           = formatSignatureForContract (hexlify sg)
       \<and> andThen (formatSignatureForECRecover (hexlify sg)) formatSignatureForECRecover
           = formatSignatureForECRecover (hexlify sg)"
proof -
  let ?r = "hexs (take 32 sg)" and ?s = "hexs (take 32 (drop 32 sg))"
  have r: "length ?r = 64" and s: "length ?s = 64"
    using assms by (simp_all add: length_hexs)
  have v: "last sg = 27 \<or> last sg = 28 \<Longrightarrow> unat (last sg) = 27 \<or> unat (last sg) = 28"
    by auto
  from normalization_idempotent_strings [OF r s unat_byte_less [of "last sg"]] v
  show ?thesis
    unfolding split_signature [OF assms, symmetric] by blast
qed

theorem signature_normalization_idempotent_witness:
  "length sample_signature = 65 \<and> last sample_signature = 28
   \<and> formatSignatureForContract (hexlify sample_signature) = Inr (hexlify sample_signature)
   \<and> formatSignatureForECRecover (hexlify sample_signature) = Inr (hexlify sample_signature)
   \<and> andThen (formatSignatureForContract (hexlify sample_signature))
         formatSignatureForContract
       = formatSignatureForContract (hexlify sample_signature)
   \<and> andThen (formatSignatureForECRecover (hexlify sample_signature))
         formatSignatureForECRecover
       = formatSignatureForECRecover (hexlify sample_signature)"
proof -
  have len: "length sample_signature = 65" by (simp add: sample_signature_def)
  have v: "last sample_signature = 28" by (simp add: sample_signature_def)
  from signature_normalization_idempotent [OF len] len v show ?thesis by blast
qed

text \<open>
  C3, where the code departs from it. \<open>packSignature\<close> takes the signature object of the
  signing library, whose \<open>v\<close> is 27 or 28, and writes \<open>v - 27\<close>: the packed signature
  is \<open>r\<close>, \<open>s\<close> and a last byte of 0 or 1, whatever was signed. Given a \<open>v\<close> of 0
  it writes the three characters \<open>-1b\<close>, which is no byte at all.
\<close>

theorem packSignature_final_byte:
  "packedSignature (ethersSignature (r, s, yParity))
     = hexlify (bytes32 r @ bytes32 s @ [if yParity then 1 else 0])
   \<and> packedSignature \<lparr>sig_v = 0, sig_r = hexlify (bytes32 r), sig_s = hexlify (bytes32 s)\<rparr>
     = ''0x'' @ hexs (bytes32 r) @ hexs (bytes32 s) @ ''-1b''"
proof -
  have low: "packedSignature
      \<lparr>sig_v = 0, sig_r = hexlify (bytes32 r), sig_s = hexlify (bytes32 s)\<rparr>
      = ''0x'' @ hexs (bytes32 r) @ hexs (bytes32 s) @ ''-1b''"
    by (simp add: packedSignature_def packSignature_def strip0x_hexlify toString16_def
        toHex.simps [of 27] toHex.simps [of "Suc 0"] padStart_def hexChar_def)
  have pad0: "padStart 2 (CHR ''0'') (toString16 (Some 0)) = hex2 0"
    using padStart_toHex [of 0] by (simp add: toString16_def)
  have pad1: "padStart 2 (CHR ''0'') (toString16 (Some 1)) = hex2 1"
    using padStart_toHex [of 1] by (simp add: toString16_def)
  have packed: "packedSignature (ethersSignature (r, s, yParity))
      = ''0x'' @ hexs (bytes32 r) @ hexs (bytes32 s) @ hex2 (if yParity then 1 else 0)"
    by (simp add: packedSignature_def packSignature_def ethersSignature_def
        strip0x_hexlify pad0 pad1)
  have "hexs [if yParity then 1 else 0 :: byte] = hex2 (if yParity then 1 else 0)"
    by (simp add: hexs_def)
  then have "hexlify (bytes32 r @ bytes32 s @ [if yParity then 1 else 0])
      = ''0x'' @ hexs (bytes32 r) @ hexs (bytes32 s) @ hex2 (if yParity then 1 else 0)"
    by (simp only: hexlify_def hexs_append)
  with packed low show ?thesis by simp
qed

section \<open>Properties of the digest and of signing\<close>











subsection \<open>What is signed\<close>

lemma serialized_canonical:
  "serialized (r, s, yParity)
     = ''0x'' @ hexs (bytes32 r) @ hexs (bytes32 s) @ hex2 (if yParity then 28 else 27)"
  by (simp add: serialized_def hex2_small)

lemma formatSignatureForECRecover_serialized:
  "formatSignatureForECRecover (serialized rsv) = Inr (serialized rsv)"
proof -
  obtain r s yParity where rsv: "rsv = (r, s, yParity)" by (cases rsv) auto
  have "(27::nat) < 256" "(28::nat) < 256" by simp_all
  then have "formatSignatureForECRecover
      (''0x'' @ hexs (bytes32 r) @ hexs (bytes32 s) @ hex2 (if yParity then 28 else 27))
    = Inr (''0x'' @ hexs (bytes32 r) @ hexs (bytes32 s)
            @ hex2 (normV (if yParity then 28 else 27)))"
    by (intro formatSignatureForECRecover_canonical) (simp_all add: length_hexs length_bytes32)
  moreover have "normV (if yParity then 28 else 27) = (if yParity then 28 else 27)"
    by (simp add: normV_def)
  ultimately show ?thesis by (simp only: rsv serialized_canonical)
qed

lemma decimal_32: "decimal 32 = ''32''"
  by code_simp

lemma utf8_32: "utf8ToBytes ''32'' = [51, 50]"
  by code_simp

text \<open>
  C2, where the code departs from it. \<open>signAuthorization\<close> hands the 32 bytes of the
  digest to the library's personal-message signing, so what is signed is not the digest
  but the hash of the 26 bytes of the message prefix, the two characters \<open>32\<close> and the
  digest. \<open>ecSign\<close> of the transfer test signs the digest itself.
\<close>

theorem signAuthorization_signs_prefixed_hash:
  "signAuthorization sign H (hexlify (bytes32 d))
     = Inr (serialized (sign (bytes32 (H (MessagePrefix @ [51, 50] @ bytes32 d)))))
   \<and> ecSign sign (hexlify (bytes32 d)) = Some (ethersSignature (sign (bytes32 d)))"
  by (simp add: signAuthorization_def getBytes_hexlify signMessage_def hashMessage_def
      length_bytes32 decimal_32 utf8_32 formatSignatureForECRecover_serialized ecSign_def)

lemma signed_message_length: "length (MessagePrefix @ [51, 50] @ bytes32 d) = 60"
  by (simp add: length_bytes32 MessagePrefix_def utf8ToBytes_def)

section \<open>Properties of the amount conversion\<close>

lemma replicate_numeral_unfold:
  "replicate (numeral k) x = x # replicate (pred_numeral k) x"
  by (simp add: numeral_eq_Suc)

lemma parseUnits_zero: "parseUnits ''0'' 6 = Inr 0"
  by (simp add: parseUnits_def isDigit_def decimalValue_def Let_def replicate_numeral_unfold)

lemma parseUnits_examples:
  "parseUnits ''50.00'' 6 = Inr 50000000"
  "parseUnits ''0.0000001'' 6 = Inl TooManyDecimals"
  "parseUnits ''1e-7'' 6 = Inl InvalidFixedNumberString"
  "parseUnits ''-1'' 6 = Inr (- 1000000)"
  "parseUnits ''.5'' 6 = Inr 500000"
  by (simp_all add: parseUnits_def isDigit_def decimalValue_def Let_def
      replicate_numeral_unfold)

text \<open>
  The conversion in general: a whole part \<open>w\<close> and a fraction \<open>f\<close> of at most
  \<open>d\<close> places, both of decimal digits, give the whole part times \<open>10 ^ d\<close> plus the
  fraction, shifted to \<open>d\<close> places. Nothing is rounded.
\<close>

lemma foldl_decimal:
  "foldl (\<lambda>acc c. 10 * acc + ((of_char c :: nat) - 48)) x ds
     = x * 10 ^ length ds + foldl (\<lambda>acc c. 10 * acc + ((of_char c :: nat) - 48)) 0 ds"
proof (induction ds arbitrary: x)
  case Nil
  then show ?case by simp
next
  case (Cons d ds)
  have "foldl (\<lambda>acc c. 10 * acc + ((of_char c :: nat) - 48)) x (d # ds)
      = foldl (\<lambda>acc c. 10 * acc + ((of_char c :: nat) - 48)) (10 * x + (of_char d - 48)) ds"
    by simp
  also have "\<dots> = (10 * x + (of_char d - 48)) * 10 ^ length ds
      + foldl (\<lambda>acc c. 10 * acc + ((of_char c :: nat) - 48)) 0 ds"
    by (rule Cons.IH)
  also have "foldl (\<lambda>acc c. 10 * acc + ((of_char c :: nat) - 48)) 0 (d # ds)
      = (of_char d - 48) * 10 ^ length ds
        + foldl (\<lambda>acc c. 10 * acc + ((of_char c :: nat) - 48)) 0 ds"
    using Cons.IH [of "of_char d - 48"] by simp
  ultimately show ?case by (simp add: algebra_simps)
qed

lemma decimalValue_append:
  "decimalValue (a @ b) = decimalValue a * 10 ^ length b + decimalValue b"
  unfolding decimalValue_def
  by (simp add: foldl_decimal [of "foldl _ 0 a" b])

lemma decimalValue_zeros: "decimalValue (replicate k (CHR ''0'')) = 0"
  by (induction k) (simp_all add: decimalValue_def)

lemma not_digit_point: "\<not> isDigit (CHR ''.'')" "\<not> isDigit (CHR ''-'')"
  by (simp_all add: isDigit_def)

lemma parseUnits_exact:
  assumes w: "list_all isDigit w" and f: "list_all isDigit f"
    and some: "w \<noteq> []" and places: "length f \<le> d"
    and fits: "decimalValue w * 10 ^ d + decimalValue f * 10 ^ (d - length f) < 2 ^ 511"
  shows "parseUnits (w @ ''.'' @ f) d
         = Inr (int (decimalValue w * 10 ^ d + decimalValue f * 10 ^ (d - length f)))"
proof -
  let ?val = "w @ ''.'' @ f"
  from some obtain c cs where wc: "w = c # cs" by (cases w) auto
  with w have "isDigit c" by simp
  then have "c \<noteq> CHR ''-''" using not_digit_point by auto
  then have neg: "\<not> startsWith ?val ''-''" by (simp add: wc)
  have tw: "takeWhile isDigit ?val = w"
    using w not_digit_point by (simp add: takeWhile_append2 list_all_iff)
  have dw: "dropWhile isDigit ?val = ''.'' @ f"
    using w not_digit_point by (simp add: dropWhile_append2 list_all_iff)
  let ?pad = "f @ replicate (d - length f) (CHR ''0'')"
  have len: "length ?pad = d" using places by simp
  have mag: "decimalValue (w @ ?pad)
      = decimalValue w * 10 ^ d + decimalValue f * 10 ^ (d - length f)"
    using len by (simp add: decimalValue_append decimalValue_zeros)
  show ?thesis
    using neg tw dw f some len mag fits
    by (simp add: parseUnits_def Let_def)
qed

lemma created_value_transfer:
  assumes "createTransferAuthorization wallet holder recipient amount nonce_hex now = Inr a"
  shows "parseUnits amount 6 = Inr (value_units a) \<and> 0 \<le> value_units a"
proof (cases "parseUnits amount 6")
  case (Inl e)
  with assms show ?thesis by (simp add: createTransferAuthorization_def)
next
  case (Inr v)
  with assms show ?thesis
    by (auto simp: createTransferAuthorization_def signTypedData_def transferMessage_def
        uint256_def Let_def split: option.splits if_splits)
qed

lemma created_value_receive:
  assumes "createReceiveAuthorization wallet holder recipient amount hours nonce_hex now
      = Inr a"
  shows "parseUnits amount 6 = Inr (value_units a) \<and> 0 \<le> value_units a"
proof (cases "parseUnits amount 6")
  case (Inl e)
  with assms show ?thesis by (simp add: createReceiveAuthorization_def)
next
  case (Inr v)
  with assms show ?thesis
    by (auto simp: createReceiveAuthorization_def signTypedData_def receiveMessage_def
        uint256_def Let_def split: option.splits if_splits)
qed

lemma zero_built_transfer:
  assumes "uint256 (now + 24 * 60 * 60)"
    and "wallet (transferMessage holder recipient 0 nonce_hex now) = Some sg"
  shows "createTransferAuthorization wallet holder recipient ''0'' nonce_hex now
         = Inr ((transferMessage holder recipient 0 nonce_hex now)\<lparr>signature := sg\<rparr>)"
proof -
  have "signTypedData wallet (transferMessage holder recipient 0 nonce_hex now) = Some sg"
    using assms by (simp add: signTypedData_def transferMessage_def uint256_def)
  then show ?thesis
    by (simp add: createTransferAuthorization_def parseUnits_zero)
qed

lemma zero_built_receive:
  assumes "uint256 now" and "uint256 (now + hours * 60 * 60)"
    and "wallet (receiveMessage holder recipient 0 hours nonce_hex now) = Some sg"
  shows "createReceiveAuthorization wallet holder recipient ''0'' hours nonce_hex now
         = Inr ((receiveMessage holder recipient 0 hours nonce_hex now)\<lparr>signature := sg\<rparr>)"
proof -
  have "signTypedData wallet (receiveMessage holder recipient 0 hours nonce_hex now)
      = Some sg"
    using assms by (simp add: signTypedData_def receiveMessage_def uint256_def)
  then show ?thesis
    by (simp add: createReceiveAuthorization_def parseUnits_zero)
qed

text \<open>
  C7, as the code has it. The conversion is on integers and exact: a whole part and a
  fraction of at most six places give the whole part times \<open>10 ^ 6\<close> plus the fraction
  shifted to six places; \<open>50\<close> gives 50000000 and \<open>0.000001\<close> gives 1. The amount
  \<open>0\<close> gives 0 and raises no error: where the wallet signs the message,
  \<open>createTransferAuthorization\<close> and \<open>createReceiveAuthorization\<close> return the
  authorization with the value 0. An authorization that is returned carries the value
  the conversion gave, and that value is never negative, since the wallet refuses to
  encode a negative number as \<open>uint256\<close>.
\<close>

theorem amount_conversion:
  "parseUnits ''50'' 6 = Inr 50000000
   \<and> parseUnits ''0.000001'' 6 = Inr 1
   \<and> parseUnits ''0'' 6 = Inr 0
   \<and> (list_all isDigit w \<and> list_all isDigit f \<and> w \<noteq> [] \<and> length f \<le> 6
        \<and> decimalValue w * 10 ^ 6 + decimalValue f * 10 ^ (6 - length f) < 2 ^ 511
      \<longrightarrow> parseUnits (w @ ''.'' @ f) 6
          = Inr (int (decimalValue w * 10 ^ 6 + decimalValue f * 10 ^ (6 - length f))))
   \<and> (uint256 (now + 24 * 60 * 60)
        \<and> wallet (transferMessage holder recipient 0 nonce_hex now) = Some sg
      \<longrightarrow> createTransferAuthorization wallet holder recipient ''0'' nonce_hex now
          = Inr ((transferMessage holder recipient 0 nonce_hex now)\<lparr>signature := sg\<rparr>))
   \<and> (uint256 now \<and> uint256 (now + hours * 60 * 60)
        \<and> wallet (receiveMessage holder recipient 0 hours nonce_hex now) = Some sg
      \<longrightarrow> createReceiveAuthorization wallet holder recipient ''0'' hours nonce_hex now
          = Inr ((receiveMessage holder recipient 0 hours nonce_hex now)
                   \<lparr>signature := sg\<rparr>))
   \<and> (createTransferAuthorization wallet holder recipient amount nonce_hex now = Inr a
      \<longrightarrow> parseUnits amount 6 = Inr (value_units a) \<and> 0 \<le> value_units a)
   \<and> (createReceiveAuthorization wallet holder recipient amount hours nonce_hex now = Inr b
      \<longrightarrow> parseUnits amount 6 = Inr (value_units b) \<and> 0 \<le> value_units b)"
proof -
  have fifty: "parseUnits ''50'' 6 = Inr 50000000"
    by (simp add: parseUnits_def isDigit_def decimalValue_def Let_def
        replicate_numeral_unfold)
  have micro: "parseUnits ''0.000001'' 6 = Inr 1"
    by (simp add: parseUnits_def isDigit_def decimalValue_def Let_def
        replicate_numeral_unfold)
  from fifty micro parseUnits_zero parseUnits_exact [of w f 6]
    zero_built_transfer [of now wallet holder recipient nonce_hex sg]
    zero_built_receive [of now hours wallet holder recipient nonce_hex sg]
    created_value_transfer [of wallet holder recipient amount nonce_hex now a]
    created_value_receive [of wallet holder recipient amount hours nonce_hex now b]
  show ?thesis by blast
qed

lemma refused_negative:
  "createTransferAuthorization sample_wallet (from_address scenario_authorization)
      (to_address scenario_authorization) ''-1'' (nonce scenario_authorization) 1000
     = Inl SigningRefused"
  by (simp add: createTransferAuthorization_def parseUnits_examples signTypedData_def
      transferMessage_def uint256_def)

theorem amount_conversion_witness:
  "list_all isDigit ''50'' \<and> list_all isDigit ''00'' \<and> length ''00'' \<le> 6
   \<and> parseUnits (''50'' @ ''.'' @ ''00'') 6 = Inr 50000000
   \<and> uint256 (1000 + 24 * 60 * 60)
   \<and> sample_wallet (transferMessage (from_address scenario_authorization)
        (to_address scenario_authorization) 0 (nonce scenario_authorization) 1000)
      = Some (signature scenario_authorization)
   \<and> createTransferAuthorization sample_wallet (from_address scenario_authorization)
        (to_address scenario_authorization) ''0'' (nonce scenario_authorization) 1000
      = Inr ((transferMessage (from_address scenario_authorization)
          (to_address scenario_authorization) 0 (nonce scenario_authorization) 1000)
            \<lparr>signature := signature scenario_authorization\<rparr>)
   \<and> createReceiveAuthorization sample_wallet (from_address scenario_authorization)
        (to_address scenario_authorization) ''0'' 24 (nonce scenario_authorization) 1000
      = Inr ((receiveMessage (from_address scenario_authorization)
          (to_address scenario_authorization) 0 24 (nonce scenario_authorization) 1000)
            \<lparr>signature := signature scenario_authorization\<rparr>)
   \<and> parseUnits ''0'' 6
      = Inr (value_units ((transferMessage (from_address scenario_authorization)
          (to_address scenario_authorization) 0 (nonce scenario_authorization) 1000)
            \<lparr>signature := signature scenario_authorization\<rparr>))"
proof -
  let ?h = "from_address scenario_authorization"
  let ?r = "to_address scenario_authorization"
  let ?n = "nonce scenario_authorization"
  let ?sg = "signature scenario_authorization"
  have digits: "list_all isDigit ''50''" "list_all isDigit ''00''"
    by (simp_all add: isDigit_def)
  have dv: "decimalValue ''50'' = 50" "decimalValue ''00'' = 0"
    by (simp_all add: decimalValue_def)
  have places: "length ''00'' \<le> 6" "''50'' \<noteq> []" by simp_all
  have fits: "decimalValue ''50'' * 10 ^ 6 + decimalValue ''00'' * 10 ^ (6 - length ''00'')
      < 2 ^ 511"
    by (simp add: dv)
  have signs: "sample_wallet m = Some ?sg" for m
    by (simp add: sample_wallet_def)
  have window: "uint256 (1000 + 24 * 60 * 60)" "uint256 1000" "uint256 (1000 + 24 * 60 * 60)"
    by (simp_all add: uint256_def)
  note inst = amount_conversion [of "''50''" "''00''" 1000 sample_wallet ?h ?r ?n ?sg 24 "''0''"
      "(transferMessage ?h ?r 0 ?n 1000)\<lparr>signature := ?sg\<rparr>"
      "(receiveMessage ?h ?r 0 24 ?n 1000)\<lparr>signature := ?sg\<rparr>"]
  have "parseUnits (''50'' @ ''.'' @ ''00'') 6
      = Inr (int (decimalValue ''50'' * 10 ^ 6
               + decimalValue ''00'' * 10 ^ (6 - length ''00'')))"
    using inst digits places fits by blast
  then have exact: "parseUnits (''50'' @ ''.'' @ ''00'') 6 = Inr 50000000"
    by (simp add: dv)
  have built_t: "createTransferAuthorization sample_wallet ?h ?r ''0'' ?n 1000
      = Inr ((transferMessage ?h ?r 0 ?n 1000)\<lparr>signature := ?sg\<rparr>)"
    using inst window(1) signs by blast
  have built_r: "createReceiveAuthorization sample_wallet ?h ?r ''0'' 24 ?n 1000
      = Inr ((receiveMessage ?h ?r 0 24 ?n 1000)\<lparr>signature := ?sg\<rparr>)"
    using inst window(2) window(3) signs by blast
  have carried: "parseUnits ''0'' 6
      = Inr (value_units ((transferMessage ?h ?r 0 ?n 1000)\<lparr>signature := ?sg\<rparr>))"
    using inst built_t by blast
  from digits places(1) exact window(1) signs built_t built_r carried
  show ?thesis by blast
qed

text \<open>
  The amount \<open>0\<close> raises no error: the payer's wallet signs, and the authorization is
  returned with the value 0.
\<close>

theorem zero_amount_is_accepted:
  "createTransferAuthorization sample_wallet (from_address scenario_authorization)
      (to_address scenario_authorization) ''0'' (nonce scenario_authorization) 1000
     = Inr (scenario_authorization
              \<lparr>value_units := 0, validAfter := 0, validBefore := 87400\<rparr>)"
  by (simp add: createTransferAuthorization_def parseUnits_zero signTypedData_def
      transferMessage_def uint256_def sample_wallet_def scenario_authorization_def)

end
